theory Spec2Isabelle
  imports Complex_Main
begin

section \<open>Business and data analysis chatbot: a shallow embedding\<close>

text \<open>
  The program is one Python script, \<^verbatim>\<open>business_data_analysis_chatbot_agent_langchain.py\<close>.
  Its own logic is a one-time load of rental rows into a table, a tool-calling loop around a
  chat model, a forecast adapter and a web form. The chat model, the tools of the SQL toolkit,
  the forecasting pipeline and the clock are outside the script: they are parameters of the
  definitions below, and every theorem holds for each value of these parameters.
\<close>

subsection \<open>Dates and their ISO format\<close>

text \<open>
  \<^verbatim>\<open>datetime.now()\<close> and the \<^verbatim>\<open>Date\<close> column are naive \<^verbatim>\<open>datetime\<close> values.
  \<^verbatim>\<open>isoformat()\<close> prints \<^verbatim>\<open>YYYY-MM-DDTHH:MM:SS\<close>, followed by \<^verbatim>\<open>.ffffff\<close> when the
  microsecond field is not zero.
\<close>

record datetime =
  year :: nat
  month :: nat
  day :: nat
  hour :: nat
  minute :: nat
  second :: nat
  microsecond :: nat

function str_nat :: "nat \<Rightarrow> string" where
  "str_nat n =
     (if n < 10 then [''0123456789'' ! n]
      else str_nat (n div 10) @ [''0123456789'' ! (n mod 10)])"
  by pat_completeness auto
termination
  by (relation "measure (\<lambda>n. n)") auto

definition zero_pad :: "nat \<Rightarrow> nat \<Rightarrow> string" where
  "zero_pad width n = replicate (width - length (str_nat n)) (CHR ''0'') @ str_nat n"

definition isoformat :: "datetime \<Rightarrow> string" where
  "isoformat d =
     zero_pad 4 (year d) @ ''-'' @ zero_pad 2 (month d) @ ''-'' @ zero_pad 2 (day d) @ ''T'' @
     zero_pad 2 (hour d) @ '':'' @ zero_pad 2 (minute d) @ '':'' @ zero_pad 2 (second d) @
     (if microsecond d = 0 then [] else ''.'' @ zero_pad 6 (microsecond d))"

subsection \<open>The load of the rentals table (lines 181-210)\<close>

text \<open>
  A row of the source dataset, with the columns the loop reads. The two rent columns may be
  null. The float type is left abstract as \<open>'f\<close>: the loop copies rents and never computes
  with them.
\<close>

record 'f dataset_row =
  Region :: string
  Region_Type :: int
  Home_Type :: int
  Date :: datetime
  Rent_Smoothed :: "'f option"
  Rent_Smoothed_Seasonally_Adjusted :: "'f option"

text \<open>An entry of \<^verbatim>\<open>zipHash\<close>: the dictionary with keys city, county and state.\<close>

record geo =
  geo_city :: string
  geo_county :: string
  geo_state :: string

text \<open>
  The parameters of one \<^verbatim>\<open>INSERT INTO rentals\<close>. The column \<^verbatim>\<open>id\<close> is assigned by the
  database and is not computed by the script.
\<close>

record 'f rental =
  zip_col :: string
  city :: string
  county :: string
  state :: string
  home_type :: int
  date :: string
  rent :: "'f option"
  rent_adjusted :: "'f option"

text \<open>Line 188: \<^verbatim>\<open>zip = f"0{row['Region']}" if len(row["Region"]) < 5 else row["Region"]\<close>.\<close>

definition zip_of_region :: "string \<Rightarrow> string" where
  "zip_of_region region = (if length region < 5 then CHR ''0'' # region else region)"

text \<open>\<^verbatim>\<open>db.run("INSERT INTO rentals ...")\<close>: the table gains the row, after the rows it holds.\<close>

definition db_run_insert :: "'f rental list \<Rightarrow> 'f rental \<Rightarrow> 'f rental list" where
  "db_run_insert db r = db @ [r]"

text \<open>
  The loop over \<^verbatim>\<open>range(len(dataset))\<close> reads \<^verbatim>\<open>dataset[i]\<close> for each index in turn, so it
  is a recursion over the list of rows. The state is the table and \<^verbatim>\<open>row_count\<close>;
  \<^verbatim>\<open>continue\<close> goes on with the state unchanged and \<^verbatim>\<open>break\<close> returns it.
\<close>

fun etl_loop ::
  "(string \<rightharpoonup> geo) \<Rightarrow> 'f dataset_row list \<Rightarrow> 'f rental list \<times> nat \<Rightarrow> 'f rental list \<times> nat"
where
  "etl_loop zipHash [] (db, row_count) = (db, row_count)"
| "etl_loop zipHash (row # dataset) (db, row_count) =
     (if Region_Type row \<noteq> 0 \<or> Rent_Smoothed row = None
      then etl_loop zipHash dataset (db, row_count)
      else
        (let zip' = zip_of_region (Region row) in
         case zipHash zip' of
           None \<Rightarrow> etl_loop zipHash dataset (db, row_count)
         | Some geo \<Rightarrow>
             (let db' = db_run_insert db
                    \<lparr>zip_col = zip', city = geo_city geo, county = geo_county geo,
                     state = geo_state geo, home_type = Home_Type row,
                     date = isoformat (Date row), rent = Rent_Smoothed row,
                     rent_adjusted = Rent_Smoothed_Seasonally_Adjusted row\<rparr>;
                  row_count' = row_count + 1
              in if row_count' \<ge> 10000 then (db', row_count')
                 else etl_loop zipHash dataset (db', row_count'))))"

text \<open>
  The table is created empty just before the loop (lines 156-168) and \<^verbatim>\<open>row_count\<close>
  starts at 0.
\<close>

definition etl :: "(string \<rightharpoonup> geo) \<Rightarrow> 'f dataset_row list \<Rightarrow> 'f rental list \<times> nat" where
  "etl zipHash dataset = etl_loop zipHash dataset ([], 0)"

text \<open>
  For the statements only: the rows that pass both tests of the loop, and the table row
  that such a row gives.
\<close>

definition accepted :: "(string \<rightharpoonup> geo) \<Rightarrow> 'f dataset_row \<Rightarrow> bool" where
  "accepted zipHash row \<longleftrightarrow>
     Region_Type row = 0 \<and> Rent_Smoothed row \<noteq> None \<and>
     zipHash (zip_of_region (Region row)) \<noteq> None"

definition rental_of :: "(string \<rightharpoonup> geo) \<Rightarrow> 'f dataset_row \<Rightarrow> 'f rental" where
  "rental_of zipHash row =
     (let zip' = zip_of_region (Region row) in
      case zipHash zip' of
        None \<Rightarrow> \<lparr>zip_col = zip', city = [], county = [], state = [], home_type = Home_Type row,
                  date = isoformat (Date row), rent = Rent_Smoothed row,
                  rent_adjusted = Rent_Smoothed_Seasonally_Adjusted row\<rparr>
      | Some geo \<Rightarrow>
          \<lparr>zip_col = zip', city = geo_city geo, county = geo_county geo,
           state = geo_state geo, home_type = Home_Type row,
           date = isoformat (Date row), rent = Rent_Smoothed row,
           rent_adjusted = Rent_Smoothed_Seasonally_Adjusted row\<rparr>)"

subsection \<open>The forecast adapter (lines 58-80)\<close>

text \<open>
  What the script can raise, as values. \<open>ToolException\<close> stands for any exception that a tool
  or an external call raises, with its message.
\<close>

datatype exn = AttributeError | IndexError | ValueError | ToolException string

text \<open>
  \<^verbatim>\<open>pipeline.predict(context, length)\<close> is the pretrained model: the parameter \<open>predict\<close>.
  Its result is indexed by series, then by sample, then by step of the horizon.
  \<^verbatim>\<open>np.quantile(a, qs, axis=0)\<close> takes, for each level, the quantile of every column of
  \<open>a\<close>; the quantile of one column is the parameter \<open>quantile_1d\<close>, so no float
  arithmetic is modelled. The figure is the data given to the plotting calls.
\<close>

record 'f figure =
  historical_line :: "'f list"
  forecast_index :: "int list"
  median_line :: "'f list"
  band_low :: "'f list"
  band_high :: "'f list"

definition quantile_axis0 :: "('f list \<Rightarrow> rat \<Rightarrow> 'f) \<Rightarrow> 'f list list \<Rightarrow> rat \<Rightarrow> 'f list" where
  "quantile_axis0 quantile_1d a q = map (\<lambda>column. quantile_1d column q) (transpose a)"

text \<open>
  \<^verbatim>\<open>plt.plot(x, y)\<close> and \<^verbatim>\<open>plt.fill_between(x, y1, y2)\<close> raise \<^verbatim>\<open>ValueError\<close> when the
  sequences differ in length.
\<close>

definition chronos_prediction ::
  "('f list \<Rightarrow> int \<Rightarrow> exn + 'f list list list) \<Rightarrow> ('f list \<Rightarrow> rat \<Rightarrow> 'f) \<Rightarrow>
   'f list \<Rightarrow> int \<Rightarrow> exn + ('f figure \<times> 'f list)"
where
  "chronos_prediction predict quantile_1d historical length' =
     (case predict historical length' of
        Inl e \<Rightarrow> Inl e
      | Inr forecast \<Rightarrow>
          (case forecast of
             [] \<Rightarrow> Inl IndexError
           | forecast0 # _ \<Rightarrow>
               (let forecast_index =
                      [int (length historical) .. int (length historical) + length' - 1];
                    low = quantile_axis0 quantile_1d forecast0 (1 / 10);
                    median = quantile_axis0 quantile_1d forecast0 (1 / 2);
                    high = quantile_axis0 quantile_1d forecast0 (9 / 10)
                in if length forecast_index \<noteq> length median then Inl ValueError
                   else if length forecast_index \<noteq> length low
                           \<or> length forecast_index \<noteq> length high then Inl ValueError
                   else Inr (\<lparr>historical_line = historical, forecast_index = forecast_index,
                              median_line = median, band_low = low, band_high = high\<rparr>,
                             median))))"

subsection \<open>Messages, the session store and the chain (lines 246-256, 336-358)\<close>

record 'a tool_call =
  call_name :: string
  call_args :: 'a
  call_id :: string

text \<open>
  A fragment of the model's streamed answer (\<^verbatim>\<open>AIMessageChunk\<close>). Adding two fragments
  joins their texts and their tool calls: every tool call is taken to arrive whole, in one
  fragment.
\<close>

record 'a ai_chunk =
  content :: string
  tool_calls :: "'a tool_call list"

definition add_chunk :: "'a ai_chunk \<Rightarrow> 'a ai_chunk \<Rightarrow> 'a ai_chunk" where
  "add_chunk r c = \<lparr>content = content r @ content c, tool_calls = tool_calls r @ tool_calls c\<rparr>"

text \<open>\<^verbatim>\<open>ToolMessageChunk output tool_call_id\<close> carries the output and the id of the call.\<close>

datatype 'a message =
  SystemMessage string
| HumanMessage string
| AIMessageChunk "'a ai_chunk"
| ToolMessageChunk string string

fun message_content :: "'a message \<Rightarrow> string" where
  "message_content (SystemMessage c) = c"
| "message_content (HumanMessage c) = c"
| "message_content (AIMessageChunk r) = content r"
| "message_content (ToolMessageChunk c i) = c"

text \<open>The input of the chain: the dictionary with keys \<^verbatim>\<open>messages\<close> and \<^verbatim>\<open>language\<close>.\<close>

record 'a chain_input =
  input_messages :: "'a message list"
  input_language :: string

text \<open>
  \<^verbatim>\<open>store\<close> maps a session id to its history. \<^verbatim>\<open>get_session_history\<close> (lines 249-252)
  creates an empty history for an unseen id; it returns the history, and the store is the
  second component.
\<close>

definition get_session_history ::
  "string \<Rightarrow> (string \<rightharpoonup> 'a message list) \<Rightarrow> 'a message list \<times> (string \<rightharpoonup> 'a message list)"
where
  "get_session_history session_id store =
     (case store session_id of
        None \<Rightarrow> ([], store(session_id \<mapsto> []))
      | Some history \<Rightarrow> (history, store))"

text \<open>Lines 255-256: \<^verbatim>\<open>input["messages"][-10:]\<close> keeps the last ten, or all when fewer.\<close>

definition limit :: "'a chain_input \<Rightarrow> 'a chain_input" where
  "limit input = input\<lparr>input_messages := drop (length (input_messages input) - 10) (input_messages input)\<rparr>"

definition system_prompt :: string where
  "system_prompt =
     ''You are an assistant designed to help with business and data analysis.\<newline>'' @
     ''If the user asks for data you don't have, use the provided tools/functions to interact with a database; follow these steps:\<newline>'' @
     ''\<newline>'' @
     ''1. First, you should ALWAYS look at the tables in the database to see what you can query. Do NOT skip this step\<newline>'' @
     ''\<newline>'' @
     ''2. Then query the schema of the most relevant tables\<newline>'' @
     ''\<newline>'' @
     ''3. Create a syntactically correct SQLite query\<newline>'' @
     ''\<newline>'' @
     ''4. You MUST use the tool to check/validate your query syntax before executing it. If you get an error while executing a query, rewrite the query and try again\<newline>'' @
     ''\<newline>'' @
     ''5. Run the query, look at the results, and only use this returned information to construct your final answer\<newline>'' @
     ''\<newline>'' @
     ''Guidelines:\<newline>'' @
     ''\<newline>'' @
     ''Do not use the 'multi_tool_use.parallel' tool, call each tool individually.\<newline>'' @
     ''Unless the user specifies a specific number of examples they wish to obtain, always limit your query to at most 5 results.\<newline>'' @
     ''You can order the results by a relevant column to return the most interesting examples in the database.\<newline>'' @
     ''Never query for all the columns from a specific table, only ask for the relevant columns given the question.\<newline>'' @
     ''DO NOT make any DML statements (INSERT, UPDATE, DELETE, DROP etc.) to the database.''"

definition template :: "'a chain_input \<Rightarrow> 'a message list" where
  "template input = SystemMessage system_prompt # input_messages input"

text \<open>Line 358: the configuration holds the session id and nothing else.\<close>

definition config :: string where
  "config = ''cat''"

text \<open>
  The state of a run: the session store and everything outside the script (the database,
  the clock, the model's service) as \<open>world\<close>. The chat model is the parameter \<open>model\<close>: from
  the prompt and the world, the fragments it streams and the world after the call.
\<close>

record ('a, 'w) agent_state =
  store :: "string \<rightharpoonup> 'a message list"
  world :: 'w

text \<open>
  \<^verbatim>\<open>response = None\<close>, then \<^verbatim>\<open>response = chunk\<close> for the first fragment and
  \<^verbatim>\<open>response += chunk\<close> for the others (lines 365-374).
\<close>

fun accumulate :: "'a ai_chunk option \<Rightarrow> 'a ai_chunk list \<Rightarrow> 'a ai_chunk option" where
  "accumulate response [] = response"
| "accumulate response (chunk # chunks) =
     accumulate (case response of None \<Rightarrow> Some chunk | Some r \<Rightarrow> Some (add_chunk r chunk)) chunks"

text \<open>
  \<^verbatim>\<open>with_history.stream(input, config)\<close> with \<^verbatim>\<open>chain = limit | template | model\<close>
  (lines 353-356). \<^verbatim>\<open>RunnableWithMessageHistory\<close> reads the history of the session, puts it
  before the input messages, runs the chain on the result and, when the stream has ended,
  appends the input messages and the answer to the history. An empty stream has no answer to
  record.
\<close>

definition with_history_stream ::
  "('a message list \<Rightarrow> 'w \<Rightarrow> 'a ai_chunk list \<times> 'w) \<Rightarrow> 'a chain_input \<Rightarrow> string \<Rightarrow>
   ('a, 'w) agent_state \<Rightarrow> 'a ai_chunk list \<times> ('a, 'w) agent_state"
where
  "with_history_stream model input session_id st =
     (case get_session_history session_id (store st) of
        (history, store1) \<Rightarrow>
          (case model (template (limit (input\<lparr>input_messages := history @ input_messages input\<rparr>))) (world st) of
             (chunks, w1) \<Rightarrow>
               (chunks,
                \<lparr>store =
                   (case accumulate None chunks of
                      None \<Rightarrow> store1
                    | Some response \<Rightarrow>
                        store1(session_id \<mapsto> history @ input_messages input @ [AIMessageChunk response])),
                 world = w1\<rparr>)))"

subsection \<open>The tool-calling loop (lines 361-386)\<close>

text \<open>
  A tool takes the arguments of the call and the world; it returns its output or raises, and
  may change the world. \<^verbatim>\<open>toolsHash\<close> is a parameter: a dictionary from names to tools.
\<close>

type_synonym ('a, 'w) tool = "'a \<Rightarrow> 'w \<Rightarrow> (exn + string) \<times> 'w"

text \<open>
  Lines 377-384. \<open>messages\<close> is the list that \<^verbatim>\<open>messages.append\<close> fills; each tool message
  is yielded just before it is appended, so the list is also what this loop yields. An
  exception of a tool leaves the loop with what was yielded so far.
\<close>

fun tool_calls_loop ::
  "(string \<rightharpoonup> ('a, 'w) tool) \<Rightarrow> 'a tool_call list \<Rightarrow> 'a message list \<Rightarrow> 'w \<Rightarrow>
   exn option \<times> 'a message list \<times> 'w"
where
  "tool_calls_loop toolsHash [] messages w = (None, messages, w)"
| "tool_calls_loop toolsHash (call # calls) messages w =
     (case toolsHash (call_name call) of
        None \<Rightarrow> tool_calls_loop toolsHash calls messages w
      | Some tool \<Rightarrow>
          (case tool (call_args call) w of
             (Inl e, w') \<Rightarrow> (Some e, messages, w')
           | (Inr output, w') \<Rightarrow>
               tool_calls_loop toolsHash calls
                 (messages @ [ToolMessageChunk output (call_id call)]) w'))"

text \<open>
  How a run of the generator ends: it finishes, it raises, or the bound on the number of
  model calls is reached. \<^verbatim>\<open>while True\<close> has no bound of its own, so the loop takes a
  number of model calls it may still make.
\<close>

datatype status = Done | Raised exn | OutOfFuel

fun agent_loop ::
  "nat \<Rightarrow> ('a message list \<Rightarrow> 'w \<Rightarrow> 'a ai_chunk list \<times> 'w) \<Rightarrow> (string \<rightharpoonup> ('a, 'w) tool) \<Rightarrow>
   'a chain_input \<Rightarrow> 'a message list \<Rightarrow> ('a, 'w) agent_state \<Rightarrow>
   'a message list \<times> status \<times> ('a, 'w) agent_state"
where
  "agent_loop 0 model toolsHash input messages st = ([], OutOfFuel, st)"
| "agent_loop (Suc fuel) model toolsHash input messages st =
     (case with_history_stream model (input\<lparr>input_messages := messages\<rparr>) config st of
        (chunks, st1) \<Rightarrow>
          (case accumulate None chunks of
             None \<Rightarrow> (map AIMessageChunk chunks, Raised AttributeError, st1)
           | Some response \<Rightarrow>
               if tool_calls response \<noteq> [] then
                 (case tool_calls_loop toolsHash (tool_calls response) [] (world st1) of
                    (Some e, tool_messages, w') \<Rightarrow>
                      (map AIMessageChunk chunks @ tool_messages, Raised e, st1\<lparr>world := w'\<rparr>)
                  | (None, tool_messages, w') \<Rightarrow>
                      (case agent_loop fuel model toolsHash input tool_messages
                              (st1\<lparr>world := w'\<rparr>) of
                         (yielded, result, st2) \<Rightarrow>
                           (map AIMessageChunk chunks @ tool_messages @ yielded, result, st2)))
               else (map AIMessageChunk chunks, Done, st1)))"

definition agent ::
  "nat \<Rightarrow> ('a message list \<Rightarrow> 'w \<Rightarrow> 'a ai_chunk list \<times> 'w) \<Rightarrow> (string \<rightharpoonup> ('a, 'w) tool) \<Rightarrow>
   'a chain_input \<Rightarrow> ('a, 'w) agent_state \<Rightarrow> 'a message list \<times> status \<times> ('a, 'w) agent_state"
where
  "agent fuel model toolsHash input st = agent_loop fuel model toolsHash input (input_messages input) st"

subsection \<open>Running a turn (lines 390-405 and 423-439) and the web form (lines 446-473)\<close>

text \<open>
  Both definitions of \<^verbatim>\<open>run\<close> stream the generator on the user's message and collect the
  text of every chunk whose content is not empty: the first prints it, the second returns
  it joined. The text is the first component. The sum \<^verbatim>\<open>res\<close> of the chunks, which only
  the first definition returns, is not modelled.
\<close>

definition run_script ::
  "nat \<Rightarrow> ('a message list \<Rightarrow> 'w \<Rightarrow> 'a ai_chunk list \<times> 'w) \<Rightarrow> (string \<rightharpoonup> ('a, 'w) tool) \<Rightarrow>
   string \<Rightarrow> ('a, 'w) agent_state \<Rightarrow> string \<times> status \<times> ('a, 'w) agent_state"
where
  "run_script fuel model toolsHash message st =
     (case agent fuel model toolsHash
             \<lparr>input_messages = [HumanMessage message], input_language = ''English''\<rparr> st of
        (yielded, result, st') \<Rightarrow>
          (concat (map message_content (filter (\<lambda>chunk. message_content chunk \<noteq> []) yielded)),
           result, st'))"

definition run ::
  "nat \<Rightarrow> ('a message list \<Rightarrow> 'w \<Rightarrow> 'a ai_chunk list \<times> 'w) \<Rightarrow> (string \<rightharpoonup> ('a, 'w) tool) \<Rightarrow>
   string \<Rightarrow> ('a, 'w) agent_state \<Rightarrow> string \<times> status \<times> ('a, 'w) agent_state"
where
  "run fuel model toolsHash message st =
     (case agent fuel model toolsHash
             \<lparr>input_messages = [HumanMessage message], input_language = ''English''\<rparr> st of
        (yielded, result, st') \<Rightarrow>
          (concat (map message_content (filter (\<lambda>chunk. message_content chunk \<noteq> []) yielded)),
           result, st'))"

text \<open>
  \<^verbatim>\<open>str.lower\<close> on the letters A to Z; the other characters of the phrase tested below
  are not letters with an upper case.
\<close>

definition lower_char :: "char \<Rightarrow> char" where
  "lower_char c =
     (let n = (of_char c :: nat) in if 65 \<le> n \<and> n \<le> 90 then char_of (n + 32) else c)"

definition lower :: "string \<Rightarrow> string" where
  "lower s = map lower_char s"

fun starts_with :: "string \<Rightarrow> string \<Rightarrow> bool" where
  "starts_with s [] = True"
| "starts_with [] (p # ps) = False"
| "starts_with (c # cs) (p # ps) = (c = p \<and> starts_with cs ps)"

text \<open>\<^verbatim>\<open>needle in s\<close> on strings.\<close>

fun str_in :: "string \<Rightarrow> string \<Rightarrow> bool" where
  "str_in needle [] = (needle = [])"
| "str_in needle (c # cs) = (starts_with (c # cs) needle \<or> str_in needle cs)"

text \<open>
  What the form shows. The chart holds the two plotted sequences and the positions of the
  forecast; the band is the forecast times 0.9 and 1.1 in floats and is left out.
\<close>

record chart =
  chart_historical :: "int list"
  chart_forecast :: "int list"
  chart_index :: "nat list"

datatype shown = Write string | Pyplot chart

definition streamlit_submit ::
  "nat \<Rightarrow> ('a message list \<Rightarrow> 'w \<Rightarrow> 'a ai_chunk list \<times> 'w) \<Rightarrow> (string \<rightharpoonup> ('a, 'w) tool) \<Rightarrow>
   bool \<Rightarrow> string \<Rightarrow> ('a, 'w) agent_state \<Rightarrow> shown list \<times> status \<times> ('a, 'w) agent_state"
where
  "streamlit_submit fuel model toolsHash button user_input st =
     (if button then
        if user_input \<noteq> [] then
          (case run fuel model toolsHash user_input st of
             (response, Done, st') \<Rightarrow>
               ([Write ''### Agent's Response:'', Write response] @
                (if str_in ''create a prediction graph'' (lower user_input) then
                   (let historical_data =
                          [1500, 1600, 1650, 1700, 1750, 1800, 1850, 1900, 1950, 2000];
                        forecast =
                          [2100, 2150, 2200, 2250, 2300, 2350, 2400, 2450, 2500, 2550, 2600, 2650]
                    in [Pyplot \<lparr>chart_historical = historical_data, chart_forecast = forecast,
                                chart_index =
                                  [length historical_data ..<
                                   length historical_data + length forecast]\<rparr>])
                 else []),
                Done, st')
           | (response, result, st') \<Rightarrow> ([], result, st'))
        else ([], Done, st)
      else ([], Done, st))"

subsection \<open>The tool for the current time (lines 286-289)\<close>

text \<open>\<^verbatim>\<open>datetime.now()\<close> reads the clock of the world: the parameter \<open>now\<close>.\<close>

definition get_current_datetime :: "('w \<Rightarrow> datetime) \<Rightarrow> bool \<Rightarrow> 'w \<Rightarrow> string" where
  "get_current_datetime now current w = isoformat (now w)"

text \<open>
  For the statements only: a sequence of turns, each with its own bound, through either
  definition of \<^verbatim>\<open>run\<close>; every turn starts from the state the one before left.
\<close>

datatype request = Script string | Form string

fun serve ::
  "('a message list \<Rightarrow> 'w \<Rightarrow> 'a ai_chunk list \<times> 'w) \<Rightarrow> (string \<rightharpoonup> ('a, 'w) tool) \<Rightarrow>
   (nat \<times> request) list \<Rightarrow> ('a, 'w) agent_state \<Rightarrow> ('a, 'w) agent_state"
where
  "serve model toolsHash [] st = st"
| "serve model toolsHash ((fuel, Script message) # rest) st =
     serve model toolsHash rest (snd (snd (run_script fuel model toolsHash message st)))"
| "serve model toolsHash ((fuel, Form user_input) # rest) st =
     serve model toolsHash rest
       (snd (snd (streamlit_submit fuel model toolsHash True user_input st)))"

text \<open>For the statements only: a string of exactly five decimal digits.\<close>

definition five_digits :: "string \<Rightarrow> bool" where
  "five_digits s \<longleftrightarrow> length s = 5 \<and> list_all (\<lambda>c. c \<in> set ''0123456789'') s"

text \<open>For the statements only: the id that a tool message carries.\<close>

fun tool_call_id_of :: "'a message \<Rightarrow> string option" where
  "tool_call_id_of (ToolMessageChunk c i) = Some i"
| "tool_call_id_of m = None"

subsection \<open>Example data\<close>

definition ex_date :: datetime where
  "ex_date = \<lparr>year = 2021, month = 3, day = 31, hour = 0, minute = 0, second = 0,
              microsecond = 0\<rparr>"

definition ex_zipHash :: "string \<rightharpoonup> geo" where
  "ex_zipHash =
     [''01012'' \<mapsto> \<lparr>geo_city = ''Chesterfield'', geo_county = ''Hampshire'', geo_state = ''MA''\<rparr>,
      ''07302'' \<mapsto> \<lparr>geo_city = ''Jersey City'', geo_county = ''Hudson'', geo_state = ''NJ''\<rparr>]"

definition ex_row :: "string \<Rightarrow> int \<Rightarrow> int option \<Rightarrow> int dataset_row" where
  "ex_row region region_type smoothed =
     \<lparr>Region = region, Region_Type = region_type, Home_Type = 1, Date = ex_date,
      Rent_Smoothed = smoothed, Rent_Smoothed_Seasonally_Adjusted = None\<rparr>"

definition ex_dataset :: "int dataset_row list" where
  "ex_dataset =
     [ex_row ''1012'' 0 (Some 1500), ex_row ''1012'' 3 (Some 1400), ex_row ''07302'' 0 None,
      ex_row ''99999'' 0 (Some 900), ex_row ''07302'' 0 (Some 2500)]"

definition ex_call1 :: "string tool_call" where
  "ex_call1 = \<lparr>call_name = ''list_sql_database_tool'', call_args = [], call_id = ''call_1''\<rparr>"

definition ex_call_unknown :: "string tool_call" where
  "ex_call_unknown =
     \<lparr>call_name = ''multi_tool_use.parallel'', call_args = [], call_id = ''call_x''\<rparr>"

definition ex_call2 :: "string tool_call" where
  "ex_call2 = \<lparr>call_name = ''get_current_datetime'', call_args = ''current'', call_id = ''call_2''\<rparr>"

definition ex_list_tool :: "(string, nat) tool" where
  "ex_list_tool args w = (Inr ''rentals'', w)"

definition ex_time_tool :: "(string, nat) tool" where
  "ex_time_tool args w = (Inr ''2021-03-31T00:00:00'', Suc w)"

definition ex_toolsHash :: "string \<rightharpoonup> (string, nat) tool" where
  "ex_toolsHash =
     [''list_sql_database_tool'' \<mapsto> ex_list_tool, ''get_current_datetime'' \<mapsto> ex_time_tool]"

definition ex_plain_model :: "string message list \<Rightarrow> nat \<Rightarrow> string ai_chunk list \<times> nat" where
  "ex_plain_model prompt w =
     ([\<lparr>content = ''Hello'', tool_calls = []\<rparr>, \<lparr>content = '' there'', tool_calls = []\<rparr>], w)"

definition ex_state :: "(string, nat) agent_state" where
  "ex_state = \<lparr>store = Map.empty, world = 0\<rparr>"

definition ex_input :: "string chain_input" where
  "ex_input = \<lparr>input_messages = [HumanMessage ''Hi''], input_language = ''English''\<rparr>"

subsection \<open>Facts about the load\<close>

lemma etl_loop_skip:
  "\<not> accepted zipHash row \<Longrightarrow>
   etl_loop zipHash (row # dataset) st = etl_loop zipHash dataset st"
  by (cases st) (auto simp: accepted_def Let_def split: option.splits)

lemma etl_loop_accept:
  "accepted zipHash row \<Longrightarrow>
   etl_loop zipHash (row # dataset) (db, row_count) =
     (if Suc row_count \<ge> 10000 then (db @ [rental_of zipHash row], Suc row_count)
      else etl_loop zipHash dataset (db @ [rental_of zipHash row], Suc row_count))"
  by (auto simp: accepted_def rental_of_def db_run_insert_def Let_def split: option.splits)

declare etl_loop.simps(2) [simp del]

lemma etl_loop_char:
  "row_count < 10000 \<Longrightarrow>
   etl_loop zipHash dataset (db, row_count) =
     (db @ map (rental_of zipHash) (take (10000 - row_count) (filter (accepted zipHash) dataset)),
      row_count + length (take (10000 - row_count) (filter (accepted zipHash) dataset)))"
proof (induction dataset arbitrary: db row_count)
  case Nil
  then show ?case by simp
next
  case (Cons row dataset)
  show ?case
  proof (cases "accepted zipHash row")
    case False
    then show ?thesis
      using Cons.IH [OF Cons.prems] by (simp add: etl_loop_skip)
  next
    case acc: True
    show ?thesis
    proof (cases "Suc row_count \<ge> 10000")
      case True
      with Cons.prems have eq: "10000 - row_count = Suc 0" by simp
      from acc True show ?thesis
        by (simp add: etl_loop_accept eq)
    next
      case False
      then have lt: "Suc row_count < 10000" by simp
      then have eq: "10000 - row_count = Suc (10000 - Suc row_count)" by simp
      from acc False show ?thesis
        using Cons.IH [OF lt] by (simp add: etl_loop_accept eq)
    qed
  qed
qed

lemma etl_char:
  "etl zipHash dataset =
     (map (rental_of zipHash) (take 10000 (filter (accepted zipHash) dataset)),
      length (take 10000 (filter (accepted zipHash) dataset)))"
  by (simp add: etl_def etl_loop_char)

lemma etl_loop_remove:
  "\<not> accepted zipHash row \<Longrightarrow>
   etl_loop zipHash (before @ row # after) st = etl_loop zipHash (before @ after) st"
proof (induction before arbitrary: st)
  case Nil
  then show ?case by (simp add: etl_loop_skip)
next
  case (Cons r before)
  obtain db row_count where st: "st = (db, row_count)" by (cases st)
  show ?case
  proof (cases "accepted zipHash r")
    case True
    then show ?thesis
      using Cons.IH [OF Cons.prems] by (simp add: st etl_loop_accept)
  next
    case False
    then show ?thesis
      using Cons.IH [OF Cons.prems] by (simp add: etl_loop_skip)
  qed
qed

lemma zip_col_rental_of: "zip_col (rental_of zipHash row) = zip_of_region (Region row)"
  by (simp add: rental_of_def Let_def split: option.splits)

lemma accepted_zip_in_dom:
  "accepted zipHash row \<Longrightarrow> zip_of_region (Region row) \<in> dom zipHash"
  by (auto simp: accepted_def)

text \<open>
  C2. The zip stored for an accepted row is the row's region with one zero put in front when
  the region has fewer than five characters, and the region itself otherwise: the zips of
  the table are, in order, these strings of the accepted rows. A region of four characters
  so becomes a string of five that starts with a zero, a region of five is unchanged,
  \<^verbatim>\<open>1012\<close> gives \<^verbatim>\<open>01012\<close> and \<^verbatim>\<open>07302\<close> stays. When the keys of the geo lookup are
  five-digit strings, as the data model has them, every stored zip is a five-digit string.
\<close>

theorem etl_zip_normalized:
  "map zip_col (fst (etl zipHash dataset)) =
     map (\<lambda>row. zip_of_region (Region row)) (take 10000 (filter (accepted zipHash) dataset))
   \<and> (length region = 4 \<longrightarrow>
        zip_of_region region = CHR ''0'' # region \<and> length (zip_of_region region) = 5)
   \<and> (length region = 5 \<longrightarrow> zip_of_region region = region)
   \<and> zip_of_region ''1012'' = ''01012''
   \<and> zip_of_region ''07302'' = ''07302''
   \<and> ((\<forall>k \<in> dom zipHash. five_digits k) \<longrightarrow>
        (\<forall>r \<in> set (fst (etl zipHash dataset)). five_digits (zip_col r)))"
proof -
  have zips: "map zip_col (fst (etl zipHash dataset)) =
     map (\<lambda>row. zip_of_region (Region row)) (take 10000 (filter (accepted zipHash) dataset))"
    by (simp add: etl_char zip_col_rental_of comp_def)
  have keys: "\<forall>r \<in> set (fst (etl zipHash dataset)). zip_col r \<in> dom zipHash"
  proof
    fix r assume "r \<in> set (fst (etl zipHash dataset))"
    then obtain row where row: "row \<in> set (take 10000 (filter (accepted zipHash) dataset))"
      and r: "r = rental_of zipHash row"
      by (auto simp: etl_char)
    from row have "row \<in> set (filter (accepted zipHash) dataset)"
      by (rule in_set_takeD)
    then have "accepted zipHash row" by simp
    then show "zip_col r \<in> dom zipHash"
      unfolding r zip_col_rental_of by (rule accepted_zip_in_dom)
  qed
  have four: "length region = 4 \<longrightarrow>
        zip_of_region region = CHR ''0'' # region \<and> length (zip_of_region region) = 5"
    by (simp add: zip_of_region_def)
  have five: "length region = 5 \<longrightarrow> zip_of_region region = region"
    by (simp add: zip_of_region_def)
  have ex1: "zip_of_region ''1012'' = ''01012''" by (simp add: zip_of_region_def)
  have ex2: "zip_of_region ''07302'' = ''07302''" by (simp add: zip_of_region_def)
  from keys have all5: "(\<forall>k \<in> dom zipHash. five_digits k) \<longrightarrow>
        (\<forall>r \<in> set (fst (etl zipHash dataset)). five_digits (zip_col r))"
    by blast
  from zips four five ex1 ex2 all5 show ?thesis by blast
qed

lemma ex_accepted:
  "filter (accepted ex_zipHash) ex_dataset =
     [ex_row ''1012'' 0 (Some 1500), ex_row ''07302'' 0 (Some 2500)]"
  by (simp add: ex_dataset_def ex_row_def ex_zipHash_def accepted_def zip_of_region_def)

theorem etl_zip_normalized_witness:
  "map zip_col (fst (etl ex_zipHash ex_dataset)) = [''01012'', ''07302'']
   \<and> list_all (\<lambda>r. five_digits (zip_col r)) (fst (etl ex_zipHash ex_dataset))
   \<and> length ''1012'' = 4 \<and> zip_of_region ''1012'' = ''01012''
   \<and> length ''07302'' = 5 \<and> zip_of_region ''07302'' = ''07302''"
proof -
  have keys: "\<forall>k \<in> dom ex_zipHash. five_digits k"
    by (simp add: ex_zipHash_def five_digits_def)
  have four: "length ''1012'' = 4" by simp
  have regions: "map (\<lambda>row. zip_of_region (Region row))
      (take 10000 (filter (accepted ex_zipHash) ex_dataset)) = [''01012'', ''07302'']"
    by (simp add: ex_accepted ex_row_def zip_of_region_def)
  from etl_zip_normalized [of ex_zipHash ex_dataset "''1012''"] keys four regions
  show ?thesis by (simp add: list_all_iff)
qed

text \<open>
  C3. A row whose region type is not 0, or whose smoothed rent is null, or whose zip has no
  entry in the geo lookup changes neither the table nor the count, wherever it stands in the
  dataset and whatever the state of the load: the load gives the same result as on the
  dataset without the row, the row next in turn leaves the state as it is, and every row of
  the table comes from a row that passes all three tests.
\<close>

theorem etl_skips_row:
  assumes "Region_Type row \<noteq> 0 \<or> Rent_Smoothed row = None
           \<or> zipHash (zip_of_region (Region row)) = None"
  shows "etl_loop zipHash (before @ row # after) st = etl_loop zipHash (before @ after) st
         \<and> etl zipHash (before @ row # after) = etl zipHash (before @ after)
         \<and> etl_loop zipHash [row] st = st
         \<and> (\<forall>r \<in> set (fst (etl zipHash dataset)).
               \<exists>row' \<in> set dataset.
                 r = rental_of zipHash row' \<and> Region_Type row' = 0 \<and> Rent_Smoothed row' \<noteq> None
                 \<and> zipHash (zip_of_region (Region row')) \<noteq> None)"
proof -
  from assms have rej: "\<not> accepted zipHash row" by (auto simp: accepted_def)
  have one: "etl_loop zipHash [row] st = st"
    using rej by (cases st) (simp add: etl_loop_skip)
  have loop: "etl_loop zipHash (before @ row # after) st = etl_loop zipHash (before @ after) st"
    using rej by (rule etl_loop_remove)
  have whole: "etl zipHash (before @ row # after) = etl zipHash (before @ after)"
    unfolding etl_def using rej by (rule etl_loop_remove)
  have from_accepted: "\<forall>r \<in> set (fst (etl zipHash dataset)).
               \<exists>row' \<in> set dataset.
                 r = rental_of zipHash row' \<and> Region_Type row' = 0 \<and> Rent_Smoothed row' \<noteq> None
                 \<and> zipHash (zip_of_region (Region row')) \<noteq> None"
  proof
    fix r assume "r \<in> set (fst (etl zipHash dataset))"
    then obtain row' where row': "row' \<in> set (take 10000 (filter (accepted zipHash) dataset))"
      and r: "r = rental_of zipHash row'"
      by (auto simp: etl_char)
    from row' have "row' \<in> set (filter (accepted zipHash) dataset)" by (rule in_set_takeD)
    then have "row' \<in> set dataset" and "accepted zipHash row'" by simp_all
    with r show "\<exists>row' \<in> set dataset.
                 r = rental_of zipHash row' \<and> Region_Type row' = 0 \<and> Rent_Smoothed row' \<noteq> None
                 \<and> zipHash (zip_of_region (Region row')) \<noteq> None"
      unfolding accepted_def by blast
  qed
  from loop whole one from_accepted show ?thesis by blast
qed

theorem etl_skips_row_witness:
  "Region_Type (ex_row ''1012'' 3 (Some 1400)) \<noteq> 0
   \<and> Rent_Smoothed (ex_row ''07302'' 0 None) = None
   \<and> ex_zipHash (zip_of_region (Region (ex_row ''99999'' 0 (Some 900)))) = None
   \<and> etl ex_zipHash ex_dataset =
       etl ex_zipHash [ex_row ''1012'' 0 (Some 1500), ex_row ''07302'' 0 (Some 2500)]
   \<and> length (fst (etl ex_zipHash ex_dataset)) = 2"
proof -
  have a: "Region_Type (ex_row ''1012'' 3 (Some 1400)) \<noteq> 0"
    by (simp add: ex_row_def)
  have b: "Rent_Smoothed (ex_row ''07302'' 0 None) = None"
    by (simp add: ex_row_def)
  have c: "ex_zipHash (zip_of_region (Region (ex_row ''99999'' 0 (Some 900)))) = None"
    by (simp add: ex_row_def ex_zipHash_def zip_of_region_def)
  from etl_skips_row [of "ex_row ''1012'' 3 (Some 1400)" ex_zipHash
        "[ex_row ''1012'' 0 (Some 1500)]"
        "[ex_row ''07302'' 0 None, ex_row ''99999'' 0 (Some 900), ex_row ''07302'' 0 (Some 2500)]"
        "([], 0)" "[]", OF disjI1, OF a]
  have "etl ex_zipHash ([ex_row ''1012'' 0 (Some 1500)] @ ex_row ''1012'' 3 (Some 1400) #
          [ex_row ''07302'' 0 None, ex_row ''99999'' 0 (Some 900), ex_row ''07302'' 0 (Some 2500)]) =
        etl ex_zipHash ([ex_row ''1012'' 0 (Some 1500)] @
          [ex_row ''07302'' 0 None, ex_row ''99999'' 0 (Some 900), ex_row ''07302'' 0 (Some 2500)])"
    by blast
  then have s1: "etl ex_zipHash ex_dataset =
      etl ex_zipHash [ex_row ''1012'' 0 (Some 1500), ex_row ''07302'' 0 None,
        ex_row ''99999'' 0 (Some 900), ex_row ''07302'' 0 (Some 2500)]"
    by (simp add: ex_dataset_def)
  from etl_skips_row [of "ex_row ''07302'' 0 None" ex_zipHash
        "[ex_row ''1012'' 0 (Some 1500)]"
        "[ex_row ''99999'' 0 (Some 900), ex_row ''07302'' 0 (Some 2500)]"
        "([], 0)" "[]", OF disjI2, OF disjI1, OF b]
  have "etl ex_zipHash ([ex_row ''1012'' 0 (Some 1500)] @ ex_row ''07302'' 0 None #
          [ex_row ''99999'' 0 (Some 900), ex_row ''07302'' 0 (Some 2500)]) =
        etl ex_zipHash ([ex_row ''1012'' 0 (Some 1500)] @
          [ex_row ''99999'' 0 (Some 900), ex_row ''07302'' 0 (Some 2500)])"
    by blast
  then have s2: "etl ex_zipHash [ex_row ''1012'' 0 (Some 1500), ex_row ''07302'' 0 None,
        ex_row ''99999'' 0 (Some 900), ex_row ''07302'' 0 (Some 2500)] =
      etl ex_zipHash [ex_row ''1012'' 0 (Some 1500),
        ex_row ''99999'' 0 (Some 900), ex_row ''07302'' 0 (Some 2500)]"
    by simp
  from etl_skips_row [of "ex_row ''99999'' 0 (Some 900)" ex_zipHash
        "[ex_row ''1012'' 0 (Some 1500)]" "[ex_row ''07302'' 0 (Some 2500)]"
        "([], 0)" "[]", OF disjI2, OF disjI2, OF c]
  have "etl ex_zipHash ([ex_row ''1012'' 0 (Some 1500)] @ ex_row ''99999'' 0 (Some 900) #
          [ex_row ''07302'' 0 (Some 2500)]) =
        etl ex_zipHash ([ex_row ''1012'' 0 (Some 1500)] @ [ex_row ''07302'' 0 (Some 2500)])"
    by blast
  then have s3: "etl ex_zipHash [ex_row ''1012'' 0 (Some 1500),
        ex_row ''99999'' 0 (Some 900), ex_row ''07302'' 0 (Some 2500)] =
      etl ex_zipHash [ex_row ''1012'' 0 (Some 1500), ex_row ''07302'' 0 (Some 2500)]"
    by simp
  have len: "length (fst (etl ex_zipHash ex_dataset)) = 2"
    by (simp add: etl_char ex_accepted)
  have all: "etl ex_zipHash ex_dataset =
       etl ex_zipHash [ex_row ''1012'' 0 (Some 1500), ex_row ''07302'' 0 (Some 2500)]"
    by (simp only: s1 s2 s3)
  from a b c all len show ?thesis by blast
qed

text \<open>
  C4. Whatever the dataset, the table holds at most 10000 rows after the load and after any
  number of its steps (the load of a prefix of the dataset), and the count equals the number
  of rows of the table. The table holds the first 10000 accepted rows, so a dataset with
  10000 accepted rows or more gives exactly 10000 rows: the rows after the 10000th accepted
  one are not read.
\<close>

theorem etl_at_most_10000:
  "length (fst (etl zipHash dataset)) \<le> 10000
   \<and> snd (etl zipHash dataset) = length (fst (etl zipHash dataset))
   \<and> length (fst (etl zipHash (take k dataset))) \<le> 10000
   \<and> fst (etl zipHash dataset) =
       map (rental_of zipHash) (take 10000 (filter (accepted zipHash) dataset))
   \<and> (10000 \<le> length (filter (accepted zipHash) dataset) \<longrightarrow>
        length (fst (etl zipHash dataset)) = 10000
        \<and> etl zipHash (dataset @ later) = etl zipHash dataset)"
proof -
  have a: "length (fst (etl zipHash dataset)) \<le> 10000"
    by (simp add: etl_char)
  have b: "snd (etl zipHash dataset) = length (fst (etl zipHash dataset))"
    by (simp add: etl_char)
  have c: "length (fst (etl zipHash (take k dataset))) \<le> 10000"
    by (simp add: etl_char)
  have d: "fst (etl zipHash dataset) =
       map (rental_of zipHash) (take 10000 (filter (accepted zipHash) dataset))"
    by (simp add: etl_char)
  have e: "10000 \<le> length (filter (accepted zipHash) dataset) \<longrightarrow>
        length (fst (etl zipHash dataset)) = 10000
        \<and> etl zipHash (dataset @ later) = etl zipHash dataset"
    by (simp add: etl_char)
  from a b c d e show ?thesis by blast
qed

theorem etl_at_most_10000_witness:
  "10000 \<le> length (filter (accepted ex_zipHash) (replicate 10001 (ex_row ''1012'' 0 (Some 1500))))
   \<and> length (fst (etl ex_zipHash (replicate 10001 (ex_row ''1012'' 0 (Some 1500))))) = 10000
   \<and> length (fst (etl ex_zipHash ex_dataset)) \<le> 10000"
proof -
  have acc: "accepted ex_zipHash (ex_row ''1012'' 0 (Some 1500))"
    by (simp add: ex_row_def ex_zipHash_def accepted_def zip_of_region_def)
  then have many:
    "10000 \<le> length (filter (accepted ex_zipHash) (replicate 10001 (ex_row ''1012'' 0 (Some 1500))))"
    by simp
  from etl_at_most_10000 [of ex_zipHash "replicate 10001 (ex_row ''1012'' 0 (Some 1500))" 0 "[]"]
    many
  have full: "length (fst (etl ex_zipHash (replicate 10001 (ex_row ''1012'' 0 (Some 1500))))) = 10000"
    by blast
  from etl_at_most_10000 [of ex_zipHash ex_dataset 0 "[]"]
  have small: "length (fst (etl ex_zipHash ex_dataset)) \<le> 10000"
    by blast
  from many full small show ?thesis by blast
qed

subsection \<open>Facts about the tool-calling loop\<close>

lemma tool_calls_loop_filter:
  "tool_calls_loop toolsHash (filter (\<lambda>c. toolsHash (call_name c) \<noteq> None) calls) messages w =
   tool_calls_loop toolsHash calls messages w"
  by (induction calls arbitrary: messages w) (auto split: option.splits sum.splits prod.splits)

lemma tool_calls_loop_ids:
  "tool_calls_loop toolsHash calls messages w = (None, tool_messages, w') \<Longrightarrow>
   map tool_call_id_of tool_messages =
     map tool_call_id_of messages @
     map (\<lambda>c. Some (call_id c)) (filter (\<lambda>c. toolsHash (call_name c) \<noteq> None) calls)"
proof (induction calls arbitrary: messages w)
  case Nil
  then show ?case by simp
next
  case (Cons call calls)
  show ?case
  proof (cases "toolsHash (call_name call)")
    case None
    with Cons show ?thesis by simp
  next
    case (Some tool)
    obtain r w1 where r: "tool (call_args call) w = (r, w1)" by (cases "tool (call_args call) w")
    show ?thesis
    proof (cases r)
      case (Inl e)
      with Cons.prems Some r show ?thesis by simp
    next
      case (Inr out)
      with Cons.prems Some r
      have "tool_calls_loop toolsHash calls (messages @ [ToolMessageChunk out (call_id call)]) w1
            = (None, tool_messages, w')" by simp
      from Cons.IH [OF this] Some show ?thesis by simp
    qed
  qed
qed

lemma tool_calls_loop_prefix:
  "tool_calls_loop toolsHash calls messages w = (e, tool_messages, w') \<Longrightarrow>
   \<exists>new. tool_messages = messages @ new \<and> list_all (\<lambda>m. tool_call_id_of m \<noteq> None) new"
proof (induction calls arbitrary: messages w)
  case Nil
  then show ?case by simp
next
  case (Cons call calls)
  show ?case
  proof (cases "toolsHash (call_name call)")
    case None
    with Cons show ?thesis by simp
  next
    case (Some tool)
    obtain r w1 where r: "tool (call_args call) w = (r, w1)" by (cases "tool (call_args call) w")
    show ?thesis
    proof (cases r)
      case (Inl e)
      with Cons.prems Some r show ?thesis by simp
    next
      case (Inr out)
      with Cons.prems Some r
      have "tool_calls_loop toolsHash calls (messages @ [ToolMessageChunk out (call_id call)]) w1
            = (e, tool_messages, w')" by simp
      from Cons.IH [OF this] show ?thesis by auto
    qed
  qed
qed

lemma whs_store_other:
  "k \<noteq> session_id \<Longrightarrow>
   store (snd (with_history_stream model input session_id st)) k = store st k"
  by (auto simp: with_history_stream_def get_session_history_def
      split: option.splits prod.splits)

lemma whs_store_session:
  "\<exists>ext. store (snd (with_history_stream model input session_id st)) session_id =
     Some ((case store st session_id of None \<Rightarrow> [] | Some h \<Rightarrow> h) @ ext)"
  by (auto simp: with_history_stream_def get_session_history_def
      split: option.splits prod.splits)


lemma whs_other:
  "with_history_stream model input session_id st = (chunks, st1) \<Longrightarrow> k \<noteq> session_id \<Longrightarrow>
   store st1 k = store st k"
  using whs_store_other [of k session_id model input st] by simp

lemma whs_session:
  "with_history_stream model input session_id st = (chunks, st1) \<Longrightarrow>
   \<exists>ext. store st1 session_id =
     Some ((case store st session_id of None \<Rightarrow> [] | Some h \<Rightarrow> h) @ ext)"
  using whs_store_session [of model input session_id st] by simp

lemma agent_loop_empty_stream:
  "with_history_stream model (input\<lparr>input_messages := messages\<rparr>) config st = (chunks, st1) \<Longrightarrow>
   accumulate None chunks = None \<Longrightarrow>
   agent_loop (Suc fuel) model toolsHash input messages st =
     (map AIMessageChunk chunks, Raised AttributeError, st1)"
  by simp

lemma agent_loop_done:
  "with_history_stream model (input\<lparr>input_messages := messages\<rparr>) config st = (chunks, st1) \<Longrightarrow>
   accumulate None chunks = Some response \<Longrightarrow> tool_calls response = [] \<Longrightarrow>
   agent_loop (Suc fuel) model toolsHash input messages st =
     (map AIMessageChunk chunks, Done, st1)"
  by simp

lemma agent_loop_tool_raises:
  "with_history_stream model (input\<lparr>input_messages := messages\<rparr>) config st = (chunks, st1) \<Longrightarrow>
   accumulate None chunks = Some response \<Longrightarrow> tool_calls response \<noteq> [] \<Longrightarrow>
   tool_calls_loop toolsHash (tool_calls response) [] (world st1) = (Some e, tool_messages, w') \<Longrightarrow>
   agent_loop (Suc fuel) model toolsHash input messages st =
     (map AIMessageChunk chunks @ tool_messages, Raised e, st1\<lparr>world := w'\<rparr>)"
  by simp

lemma agent_loop_continue:
  "with_history_stream model (input\<lparr>input_messages := messages\<rparr>) config st = (chunks, st1) \<Longrightarrow>
   accumulate None chunks = Some response \<Longrightarrow> tool_calls response \<noteq> [] \<Longrightarrow>
   tool_calls_loop toolsHash (tool_calls response) [] (world st1) = (None, tool_messages, w') \<Longrightarrow>
   agent_loop (Suc fuel) model toolsHash input messages st =
     (map AIMessageChunk chunks @ tool_messages @
        fst (agent_loop fuel model toolsHash input tool_messages (st1\<lparr>world := w'\<rparr>)),
      fst (snd (agent_loop fuel model toolsHash input tool_messages (st1\<lparr>world := w'\<rparr>))),
      snd (snd (agent_loop fuel model toolsHash input tool_messages (st1\<lparr>world := w'\<rparr>))))"
  by (simp split: prod.splits)

declare agent_loop.simps(2) [simp del]

lemma agent_loop_store_other:
  "k \<noteq> config \<Longrightarrow>
   store (snd (snd (agent_loop fuel model toolsHash input messages st))) k = store st k"
proof (induction fuel arbitrary: messages st)
  case 0
  then show ?case by simp
next
  case (Suc fuel)
  obtain chunks st1 where w: "with_history_stream model (input\<lparr>input_messages := messages\<rparr>) config st
      = (chunks, st1)" by (cases "with_history_stream model (input\<lparr>input_messages := messages\<rparr>) config st")
  have s1: "store st1 k = store st k" using whs_other [OF w Suc.prems] .
  show ?case
  proof (cases "accumulate None chunks")
    case None
    with w s1 show ?thesis by (simp add: agent_loop_empty_stream)
  next
    case (Some response)
    show ?thesis
    proof (cases "tool_calls response = []")
      case True
      with w s1 Some show ?thesis by (simp add: agent_loop_done)
    next
      case False
      obtain e tool_messages w' where t:
        "tool_calls_loop toolsHash (tool_calls response) [] (world st1) = (e, tool_messages, w')"
        by (cases "tool_calls_loop toolsHash (tool_calls response) [] (world st1)")
      show ?thesis
      proof (cases e)
        case None
        have "store (snd (snd (agent_loop fuel model toolsHash input tool_messages
                (st1\<lparr>world := w'\<rparr>)))) k = store (st1\<lparr>world := w'\<rparr>) k"
          using Suc.IH [OF Suc.prems] .
        with s1 show ?thesis
          by (simp add: agent_loop_continue [OF w Some False t [unfolded None]])
      next
        case (Some ex)
        with s1 show ?thesis
          by (simp add: agent_loop_tool_raises
              [OF w \<open>accumulate None chunks = Some response\<close> False t [unfolded Some]])
      qed
    qed
  qed
qed

lemma agent_loop_store_session:
  "store st config = Some h \<Longrightarrow>
   \<exists>ext. store (snd (snd (agent_loop fuel model toolsHash input messages st))) config
     = Some (h @ ext)"
proof (induction fuel arbitrary: messages st h)
  case 0
  then show ?case by simp
next
  case (Suc fuel)
  obtain chunks st1 where w: "with_history_stream model (input\<lparr>input_messages := messages\<rparr>) config st
      = (chunks, st1)" by (cases "with_history_stream model (input\<lparr>input_messages := messages\<rparr>) config st")
  from whs_session [OF w] Suc.prems obtain ext1 where s1: "store st1 config = Some (h @ ext1)"
    by auto
  show ?case
  proof (cases "accumulate None chunks")
    case None
    with w s1 show ?thesis by (simp add: agent_loop_empty_stream)
  next
    case (Some response)
    show ?thesis
    proof (cases "tool_calls response = []")
      case True
      with w s1 Some show ?thesis by (simp add: agent_loop_done)
    next
      case False
      obtain e tool_messages w' where t:
        "tool_calls_loop toolsHash (tool_calls response) [] (world st1) = (e, tool_messages, w')"
        by (cases "tool_calls_loop toolsHash (tool_calls response) [] (world st1)")
      show ?thesis
      proof (cases e)
        case None
        have "store (st1\<lparr>world := w'\<rparr>) config = Some (h @ ext1)" using s1 by simp
        from Suc.IH [OF this] obtain ext2 where
          "store (snd (snd (agent_loop fuel model toolsHash input tool_messages
                (st1\<lparr>world := w'\<rparr>)))) config = Some ((h @ ext1) @ ext2)" by blast
        then show ?thesis
          by (simp add: agent_loop_continue [OF w Some False t [unfolded None]])
      next
        case (Some ex)
        with s1 show ?thesis
          by (simp add: agent_loop_tool_raises
              [OF w \<open>accumulate None chunks = Some response\<close> False t [unfolded Some]])
      qed
    qed
  qed
qed


lemma accumulate_Some_content:
  "accumulate (Some r) chunks = Some r' \<Longrightarrow> content r' = content r @ concat (map content chunks)"
  by (induction chunks arbitrary: r) (auto simp: add_chunk_def)

lemma accumulate_None_content:
  "accumulate None chunks = Some r \<Longrightarrow> content r = concat (map content chunks)"
  by (cases chunks) (auto dest: accumulate_Some_content)

lemma concat_map_filter_nonempty:
  "concat (map f (filter (\<lambda>x. f x \<noteq> []) xs)) = concat (map f xs)"
  by (induction xs) auto

lemma collected_text:
  "concat (map message_content
      (filter (\<lambda>chunk. message_content chunk \<noteq> []) (map AIMessageChunk chunks)))
   = concat (map content chunks)"
  using concat_map_filter_nonempty [of message_content "map AIMessageChunk chunks"]
  by (simp add: comp_def)

text \<open>
  C1. The loop over the tool calls of a response takes the calls in the order of the response.
  A call whose name is not in the tool mapping is dropped: the loop does what it does on the
  registered calls alone, without a message and without an error. A registered call whose tool
  returns gives one tool message with the tool's output on the call's arguments and the call's
  id, put after the messages so far. When no tool raises, the ids of the tool messages are the
  ids of the registered calls, in order; two registered calls give exactly two tool messages.
  The agent yields these messages after the fragments of the response and before anything of
  the next model call, and the next iteration has them as its message list.
\<close>

theorem tool_calls_in_order:
  "tool_calls_loop toolsHash calls messages w =
     tool_calls_loop toolsHash (filter (\<lambda>c. toolsHash (call_name c) \<noteq> None) calls) messages w
   \<and> (toolsHash (call_name call) = None \<longrightarrow>
        tool_calls_loop toolsHash (call # calls) messages w =
          tool_calls_loop toolsHash calls messages w)
   \<and> (toolsHash (call_name call) = Some tool \<and> tool (call_args call) w = (Inr out, w1) \<longrightarrow>
        tool_calls_loop toolsHash (call # calls) messages w =
          tool_calls_loop toolsHash calls (messages @ [ToolMessageChunk out (call_id call)]) w1)
   \<and> (tool_calls_loop toolsHash calls [] w = (None, tool_messages, w') \<longrightarrow>
        map tool_call_id_of tool_messages =
          map (\<lambda>c. Some (call_id c)) (filter (\<lambda>c. toolsHash (call_name c) \<noteq> None) calls))
   \<and> (toolsHash (call_name c1) = Some t1 \<and> t1 (call_args c1) w = (Inr o1, w1)
        \<and> toolsHash (call_name c2) = Some t2 \<and> t2 (call_args c2) w1 = (Inr o2, w2) \<longrightarrow>
        tool_calls_loop toolsHash [c1, c2] [] w =
          (None, [ToolMessageChunk o1 (call_id c1), ToolMessageChunk o2 (call_id c2)], w2))
   \<and> (with_history_stream model (input\<lparr>input_messages := msgs\<rparr>) config st = (chunks, st1)
        \<and> accumulate None chunks = Some response \<and> tool_calls response \<noteq> []
        \<and> tool_calls_loop toolsHash (tool_calls response) [] (world st1) = (None, tool_messages, w')
        \<longrightarrow>
        agent_loop (Suc fuel) model toolsHash input msgs st =
          (map AIMessageChunk chunks @ tool_messages @
             fst (agent_loop fuel model toolsHash input tool_messages (st1\<lparr>world := w'\<rparr>)),
           fst (snd (agent_loop fuel model toolsHash input tool_messages (st1\<lparr>world := w'\<rparr>))),
           snd (snd (agent_loop fuel model toolsHash input tool_messages (st1\<lparr>world := w'\<rparr>)))))"
proof -
  have a: "tool_calls_loop toolsHash calls messages w =
     tool_calls_loop toolsHash (filter (\<lambda>c. toolsHash (call_name c) \<noteq> None) calls) messages w"
    by (rule tool_calls_loop_filter [symmetric])
  have b: "toolsHash (call_name call) = None \<longrightarrow>
        tool_calls_loop toolsHash (call # calls) messages w =
          tool_calls_loop toolsHash calls messages w"
    by simp
  have c: "toolsHash (call_name call) = Some tool \<and> tool (call_args call) w = (Inr out, w1) \<longrightarrow>
        tool_calls_loop toolsHash (call # calls) messages w =
          tool_calls_loop toolsHash calls (messages @ [ToolMessageChunk out (call_id call)]) w1"
    by simp
  have d: "tool_calls_loop toolsHash calls [] w = (None, tool_messages, w') \<longrightarrow>
        map tool_call_id_of tool_messages =
          map (\<lambda>c. Some (call_id c)) (filter (\<lambda>c. toolsHash (call_name c) \<noteq> None) calls)"
    using tool_calls_loop_ids [of toolsHash calls "[]" w tool_messages w'] by simp
  have e: "toolsHash (call_name c1) = Some t1 \<and> t1 (call_args c1) w = (Inr o1, w1)
        \<and> toolsHash (call_name c2) = Some t2 \<and> t2 (call_args c2) w1 = (Inr o2, w2) \<longrightarrow>
        tool_calls_loop toolsHash [c1, c2] [] w =
          (None, [ToolMessageChunk o1 (call_id c1), ToolMessageChunk o2 (call_id c2)], w2)"
    by simp
  have f: "with_history_stream model (input\<lparr>input_messages := msgs\<rparr>) config st = (chunks, st1)
        \<and> accumulate None chunks = Some response \<and> tool_calls response \<noteq> []
        \<and> tool_calls_loop toolsHash (tool_calls response) [] (world st1) = (None, tool_messages, w')
        \<longrightarrow>
        agent_loop (Suc fuel) model toolsHash input msgs st =
          (map AIMessageChunk chunks @ tool_messages @
             fst (agent_loop fuel model toolsHash input tool_messages (st1\<lparr>world := w'\<rparr>)),
           fst (snd (agent_loop fuel model toolsHash input tool_messages (st1\<lparr>world := w'\<rparr>))),
           snd (snd (agent_loop fuel model toolsHash input tool_messages (st1\<lparr>world := w'\<rparr>))))"
    by (intro impI, elim conjE, rule agent_loop_continue, assumption+)
  from a b c d e f show ?thesis by (intro conjI)
qed

text \<open>
  C5. When the response accumulated from the first model call has no tool calls, the agent
  ends on that pass for every bound of at least one model call: it has yielded the fragments
  of that response and no tool message, the state is the one that the single model call left,
  and the text that \<^verbatim>\<open>run\<close> collects is the content of the response.
\<close>

theorem agent_no_tool_calls:
  assumes "with_history_stream model input config st = (chunks, st1)"
    and "accumulate None chunks = Some response"
    and "tool_calls response = []"
  shows "agent (Suc fuel) model toolsHash input st = (map AIMessageChunk chunks, Done, st1)
    \<and> list_all (\<lambda>m. tool_call_id_of m = None) (fst (agent (Suc fuel) model toolsHash input st))
    \<and> concat (map message_content (filter (\<lambda>chunk. message_content chunk \<noteq> [])
          (fst (agent (Suc fuel) model toolsHash input st)))) = content response
    \<and> (input = \<lparr>input_messages = [HumanMessage message], input_language = ''English''\<rparr> \<longrightarrow>
         run (Suc fuel) model toolsHash message st = (content response, Done, st1)
         \<and> run_script (Suc fuel) model toolsHash message st = (content response, Done, st1))"
proof -
  have inp: "input\<lparr>input_messages := input_messages input\<rparr> = input" by simp
  have ag: "agent (Suc fuel) model toolsHash input st = (map AIMessageChunk chunks, Done, st1)"
    unfolding agent_def using assms by (simp add: agent_loop_done inp)
  have no_tool: "list_all (\<lambda>m. tool_call_id_of m = None) (map AIMessageChunk chunks)"
    by (simp add: list_all_iff)
  have collected: "concat (map message_content (filter (\<lambda>chunk. message_content chunk \<noteq> [])
          (map AIMessageChunk chunks))) = content response"
    using accumulate_None_content [OF assms(2)] by (simp only: collected_text)
  have runs: "input = \<lparr>input_messages = [HumanMessage message], input_language = ''English''\<rparr> \<longrightarrow>
         run (Suc fuel) model toolsHash message st = (content response, Done, st1)
         \<and> run_script (Suc fuel) model toolsHash message st = (content response, Done, st1)"
    using ag collected by (auto simp: run_def run_script_def)
  from ag no_tool collected runs show ?thesis by simp
qed


theorem tool_calls_in_order_witness:
  "ex_toolsHash (call_name ex_call_unknown) = None
   \<and> tool_calls_loop ex_toolsHash [ex_call1, ex_call_unknown, ex_call2] [] 0 =
       (None, [ToolMessageChunk ''rentals'' ''call_1'',
               ToolMessageChunk ''2021-03-31T00:00:00'' ''call_2''], Suc 0)"
proof -
  note t = tool_calls_in_order [where toolsHash = ex_toolsHash
      and calls = "[ex_call1, ex_call_unknown, ex_call2]" and messages = "[]" and w = 0
      and ?c1.0 = ex_call1 and ?t1.0 = ex_list_tool and ?o1.0 = "''rentals''" and ?w1.0 = 0
      and ?c2.0 = ex_call2 and ?t2.0 = ex_time_tool and ?o2.0 = "''2021-03-31T00:00:00''"
      and ?w2.0 = "Suc 0"]
  have unknown: "ex_toolsHash (call_name ex_call_unknown) = None"
    by (simp add: ex_toolsHash_def ex_call_unknown_def)
  have registered:
    "filter (\<lambda>c. ex_toolsHash (call_name c) \<noteq> None) [ex_call1, ex_call_unknown, ex_call2]
     = [ex_call1, ex_call2]"
    by (simp add: ex_toolsHash_def ex_call_unknown_def ex_call1_def ex_call2_def)
  have dropped: "tool_calls_loop ex_toolsHash [ex_call1, ex_call_unknown, ex_call2] [] 0 =
      tool_calls_loop ex_toolsHash [ex_call1, ex_call2] [] 0"
    using t [THEN conjunct1] by (simp only: registered)
  have two: "toolsHash' = ex_toolsHash \<Longrightarrow>
      toolsHash' (call_name ex_call1) = Some ex_list_tool
      \<and> ex_list_tool (call_args ex_call1) 0 = (Inr ''rentals'', 0)
      \<and> toolsHash' (call_name ex_call2) = Some ex_time_tool
      \<and> ex_time_tool (call_args ex_call2) 0 = (Inr ''2021-03-31T00:00:00'', Suc 0)"
    for toolsHash' :: "string \<rightharpoonup> (string, nat) tool"
    by (simp add: ex_toolsHash_def ex_call1_def ex_call2_def ex_list_tool_def ex_time_tool_def)
  have both: "tool_calls_loop ex_toolsHash [ex_call1, ex_call2] [] 0 =
      (None, [ToolMessageChunk ''rentals'' (call_id ex_call1),
              ToolMessageChunk ''2021-03-31T00:00:00'' (call_id ex_call2)], Suc 0)"
    using t [THEN conjunct2, THEN conjunct2, THEN conjunct2, THEN conjunct2, THEN conjunct1]
      two [OF refl]
    by (rule mp)
  have ids: "call_id ex_call1 = ''call_1''" "call_id ex_call2 = ''call_2''"
    by (simp_all add: ex_call1_def ex_call2_def)
  from unknown dropped both show ?thesis by (simp only: ids)
qed

theorem agent_no_tool_calls_witness:
  "run (Suc 0) ex_plain_model ex_toolsHash ''Hi'' ex_state =
     (''Hello there'', Done,
      \<lparr>store = [''cat'' \<mapsto> [HumanMessage ''Hi'',
                 AIMessageChunk \<lparr>content = ''Hello there'', tool_calls = []\<rparr>]],
       world = 0\<rparr>)"
proof -
  have stream: "with_history_stream ex_plain_model
      \<lparr>input_messages = [HumanMessage ''Hi''], input_language = ''English''\<rparr> config ex_state =
      ([\<lparr>content = ''Hello'', tool_calls = []\<rparr>, \<lparr>content = '' there'', tool_calls = []\<rparr>],
       \<lparr>store = [''cat'' \<mapsto> [HumanMessage ''Hi'',
                 AIMessageChunk \<lparr>content = ''Hello there'', tool_calls = []\<rparr>]],
        world = 0\<rparr>)"
    by (simp add: with_history_stream_def get_session_history_def ex_plain_model_def
        ex_state_def add_chunk_def config_def)
  have acc: "accumulate None
      [\<lparr>content = ''Hello'', tool_calls = []\<rparr>, \<lparr>content = '' there'', tool_calls = []\<rparr>] =
      Some \<lparr>content = ''Hello there'', tool_calls = ([] :: string tool_call list)\<rparr>"
    by (simp add: add_chunk_def)
  have none: "tool_calls \<lparr>content = ''Hello there'', tool_calls = ([] :: string tool_call list)\<rparr> = []"
    by simp
  from agent_no_tool_calls [OF stream acc none, of 0 ex_toolsHash "''Hi''"]
  show ?thesis by simp
qed

end
